theory Spec2Isabelle
  imports Main
begin

section \<open>Wire data\<close>

text \<open>
  The embedded program is \<^verbatim>\<open>teams/streaming/streaming_response.py\<close>, class
  \<^verbatim>\<open>StreamingResponse\<close>.  The activity, its channel data and its entities come from
  other modules; only the fields this class reads or writes are kept.
\<close>

datatype activity_type = Typing | Message

datatype stream_type = Informative | Streaming | Final

text \<open>\<^verbatim>\<open>Literal["default", "custom"]\<close>\<close>

datatype feedback_loop_kind = Default | Custom

type_synonym attachment = string

type_synonym sensitivity_usage_info = string

text \<open>\<^verbatim>\<open>Citation\<close> of the prompt layer: \<^verbatim>\<open>set_citations\<close> reads \<^verbatim>\<open>content\<close> and \<^verbatim>\<open>title\<close>.\<close>

record citation =
  content :: string
  title :: "string option"

record appearance =
  name :: string
  abstract :: string

record client_citation =
  position :: int
  appearance :: appearance

text \<open>
  Modelled from the spec: \<^verbatim>\<open>StreamingChannelData\<close> (its module is not part of the
  sources at hand).  The spec lists the channel metadata fields: stream kind, sequence
  (absent for final), stream id (absent until assigned), and the feedback decorations.
  \<^verbatim>\<open>to_dict\<close> and \<^verbatim>\<open>from_dict\<close> are taken to be inverse to each other, so the record
  itself stands for the dictionary stored in the activity.
\<close>

record streaming_channel_data =
  stream_type :: stream_type
  stream_sequence :: "int option"
  cd_stream_id :: "string option"
  feedback_loop_enabled :: "bool option"
  cd_feedback_loop_type :: "feedback_loop_kind option"

text \<open>
  \<^verbatim>\<open>StreamingEntity(stream_id, stream_sequence, stream_type)\<close> and
  \<^verbatim>\<open>AIEntity(additional_type, citation, usage_info)\<close>.
\<close>

datatype entity =
  Streaming_entity "string option" "int option" stream_type
| AI_entity "string list" "client_citation list" "sensitivity_usage_info option"

text \<open>
  \<^verbatim>\<open>Activity\<close>: \<^verbatim>\<open>act_attachments\<close> is \<open>None\<close> when the constructor is not given any;
  \<^verbatim>\<open>entities\<close> is overwritten by \<^verbatim>\<open>send_activity\<close> before anything reads it, so the
  unset value is written \<open>[]\<close>.
\<close>

record activity =
  act_type :: activity_type
  act_text :: string
  act_attachments :: "attachment list option"
  channel_data :: streaming_channel_data
  entities :: "entity list"

datatype resource_response = Resource_response (response_id: "string option")

text \<open>What awaiting \<^verbatim>\<open>self._context.send_activity(activity)\<close> does: raise, or return a
  response (possibly \<^verbatim>\<open>None\<close>).\<close>

datatype send_result = Raises | Returns "resource_response option"

datatype error = Application_error string | Transport_error

section \<open>The engine state\<close>

text \<open>
  The queue holds \<^verbatim>\<open>Callable[[], Activity]\<close> values.  The class only ever enqueues two
  kinds: \<^verbatim>\<open>lambda: activity\<close> with an activity built at enqueue time, and the closure
  \<^verbatim>\<open>_format_next_chunk\<close>, which reads the state when it is called.
\<close>

datatype job = Const_activity activity | Format_next_chunk

text \<open>
  One field per attribute of the class, in the order of the source.  \<^verbatim>\<open>queue\<close> is the
  list the instance reads as \<^verbatim>\<open>self._queue\<close>: the list of the class, which every instance
  of the process reads and changes (see the process at the end of the definitions); a
  statement about an arbitrary state takes its content as it is.  \<^verbatim>\<open>queue_sync\<close> is
  \<open>True\<close> while \<^verbatim>\<open>_queue_sync\<close> holds a task.  \<^verbatim>\<open>outbox\<close> is not an attribute: it logs, in
  order, the activities handed to \<^verbatim>\<open>self._context.send_activity\<close>, whether the send
  returned or raised.
\<close>

record streaming_response =
  next_sequence :: int
  stream_id :: "string option"
  message :: string
  attachments :: "attachment list"
  ended :: bool
  citations :: "client_citation list option"
  sensitivity_label :: "sensitivity_usage_info option"
  enable_feedback_loop :: bool
  feedback_loop_type :: "feedback_loop_kind option"
  enable_generated_by_ai_label :: bool
  queue :: "job list"
  queue_sync :: bool
  chunk_queued :: bool
  outbox :: "activity list"

text \<open>
  The class-level defaults as a lone engine finds them: the first instance of a process,
  with nothing queued by another instance.
\<close>

definition new_streaming_response :: streaming_response where
  "new_streaming_response =
     \<lparr>next_sequence = 1, stream_id = Some [], message = [], attachments = [],
      ended = False, citations = Some [], sensitivity_label = None,
      enable_feedback_loop = False, feedback_loop_type = None,
      enable_generated_by_ai_label = False, queue = [], queue_sync = False,
      chunk_queued = False, outbox = []\<rparr>"

text \<open>Python truthiness of an optional string and of an optional list.\<close>

fun truthy :: "'a list option \<Rightarrow> bool" where
  "truthy None = False"
| "truthy (Some xs) = (xs \<noteq> [])"

section \<open>Collaborators\<close>

text \<open>
  Functions imported from other modules are parameters: the two citation utilities, the
  snippet helper, the turn context's transport, and \<^verbatim>\<open>asyncio.create_task\<close>.  The
  transport may answer differently at every call, so it is a function of the activities
  handed to it before and of the current one; within one run no two calls have the same
  history.  \<^verbatim>\<open>create_task\<close> raises when no event loop is running, which the engine does
  not control: \<open>create_task_raises\<close> tells it for the state in which the call is made.
\<close>

record env =
  format_citations_response :: "string \<Rightarrow> string"
  get_used_citations :: "string \<Rightarrow> client_citation list \<Rightarrow> client_citation list option"
  snippet :: "string \<Rightarrow> nat \<Rightarrow> string"
  context_send_activity :: "activity list \<Rightarrow> activity \<Rightarrow> send_result"
  create_task_raises :: "streaming_response \<Rightarrow> bool"

section \<open>Setters and accessors\<close>

definition set_attachments :: "attachment list \<Rightarrow> streaming_response \<Rightarrow> streaming_response" where
  "set_attachments a s = s\<lparr>attachments := a\<rparr>"

definition set_feedback_loop :: "bool \<Rightarrow> streaming_response \<Rightarrow> streaming_response" where
  "set_feedback_loop b s = s\<lparr>enable_feedback_loop := b\<rparr>"

definition set_feedback_loop_type ::
  "feedback_loop_kind \<Rightarrow> streaming_response \<Rightarrow> streaming_response" where
  "set_feedback_loop_type k s = s\<lparr>feedback_loop_type := Some k\<rparr>"

definition set_sensitivity_label ::
  "sensitivity_usage_info \<Rightarrow> streaming_response \<Rightarrow> streaming_response" where
  "set_sensitivity_label l s = s\<lparr>sensitivity_label := Some l\<rparr>"

definition set_generated_by_ai_label :: "bool \<Rightarrow> streaming_response \<Rightarrow> streaming_response" where
  "set_generated_by_ai_label b s = s\<lparr>enable_generated_by_ai_label := b\<rparr>"

definition updates_sent :: "streaming_response \<Rightarrow> int" where
  "updates_sent s = next_sequence s - 1"

text \<open>Decimal rendering of a natural number, for the f-string of \<^verbatim>\<open>set_citations\<close>.\<close>

fun str_nat :: "nat \<Rightarrow> string" where
  "str_nat n =
     (if n < 10 then [char_of (48 + n)]
      else str_nat (n div 10) @ [char_of (48 + n mod 10)])"

declare str_nat.simps [simp del]

text \<open>The \<^verbatim>\<open>for\<close> loop of \<^verbatim>\<open>set_citations\<close>: \<open>curr_pos\<close> and the growing list.\<close>

fun set_citations_loop ::
  "env \<Rightarrow> citation list \<Rightarrow> nat \<Rightarrow> client_citation list \<Rightarrow> client_citation list" where
  "set_citations_loop X [] curr_pos acc = acc"
| "set_citations_loop X (c # cs) curr_pos acc =
     set_citations_loop X cs (curr_pos + 1)
       (acc @ [\<lparr>position = int curr_pos + 1,
                appearance =
                  \<lparr>name = (if truthy (title c) then the (title c)
                            else ''Document '' @ str_nat (curr_pos + 1)),
                   abstract = snippet X (content c) 477\<rparr>\<rparr>])"

definition set_citations :: "env \<Rightarrow> citation list \<Rightarrow> streaming_response \<Rightarrow> streaming_response" where
  "set_citations X cs s =
     (if length cs > 0 then
        (let own = (if \<not> truthy (citations s) then [] else the (citations s));
             curr_pos = length own
         in s\<lparr>citations := Some (set_citations_loop X cs curr_pos own)\<rparr>)
      else s)"

section \<open>The queue\<close>

text \<open>
  A method that can raise returns the error, if any, together with the state it leaves:
  what was written before the raise stays written.
\<close>

definition stream_already_ended :: error where
  "stream_already_ended = Application_error ''The stream has already ended.''"

definition task_not_created :: error where
  "task_not_created =
     Application_error ''Error occured when sending activity while streaming:''"

text \<open>
  \<^verbatim>\<open>queue_activity\<close>: append, and create the drain task when none is stored.  The task
  is only created here; it runs when the event loop schedules it.  When \<^verbatim>\<open>create_task\<close>
  raises, the job has been appended, no task is stored, and the error is raised.
\<close>

definition queue_activity ::
  "env \<Rightarrow> job \<Rightarrow> streaming_response \<Rightarrow> error option \<times> streaming_response" where
  "queue_activity X factory s =
     (let s1 = s\<lparr>queue := queue s @ [factory]\<rparr>
      in if \<not> queue_sync s1 then
           (if create_task_raises X s1 then (Some task_not_created, s1)
            else (None, s1\<lparr>queue_sync := True\<rparr>))
         else (None, s1))"

definition queue_next_chunk ::
  "env \<Rightarrow> streaming_response \<Rightarrow> error option \<times> streaming_response" where
  "queue_next_chunk X s =
     (if chunk_queued s then (None, s)
      else queue_activity X Format_next_chunk (s\<lparr>chunk_queued := True\<rparr>))"

text \<open>The closure \<^verbatim>\<open>_format_next_chunk\<close>, called at drain time.\<close>

definition format_next_chunk :: "streaming_response \<Rightarrow> activity \<times> streaming_response" where
  "format_next_chunk s =
     (let s1 = s\<lparr>chunk_queued := False\<rparr>
      in if ended s1 then
           (\<lparr>act_type = Message, act_text = message s1,
             act_attachments = Some (attachments s1),
             channel_data =
               \<lparr>stream_type = Final, stream_sequence = None, cd_stream_id = None,
                feedback_loop_enabled = None, cd_feedback_loop_type = None\<rparr>,
             entities = []\<rparr>, s1)
         else
           (\<lparr>act_type = Typing, act_text = message s1, act_attachments = None,
             channel_data =
               \<lparr>stream_type = Streaming, stream_sequence = Some (next_sequence s1),
                cd_stream_id = None, feedback_loop_enabled = None,
                cd_feedback_loop_type = None\<rparr>,
             entities = []\<rparr>,
            s1\<lparr>next_sequence := next_sequence s1 + 1\<rparr>))"

text \<open>\<^verbatim>\<open>factory()\<close> in the drain loop.\<close>

fun call_factory :: "job \<Rightarrow> streaming_response \<Rightarrow> activity \<times> streaming_response" where
  "call_factory (Const_activity a) s = (a, s)"
| "call_factory Format_next_chunk s = format_next_chunk s"

section \<open>Producer calls\<close>

text \<open>
  \<^verbatim>\<open>queue_informative_update\<close>: the counter is advanced after \<^verbatim>\<open>queue_activity\<close>, so
  not when that raises.
\<close>

definition queue_informative_update ::
  "env \<Rightarrow> string \<Rightarrow> streaming_response \<Rightarrow> error option \<times> streaming_response" where
  "queue_informative_update X txt s =
     (if ended s then (Some stream_already_ended, s)
      else
        (let a = \<lparr>act_type = Typing, act_text = txt, act_attachments = None,
                  channel_data =
                    \<lparr>stream_type = Informative, stream_sequence = Some (next_sequence s),
                     cd_stream_id = None, feedback_loop_enabled = None,
                     cd_feedback_loop_type = None\<rparr>,
                  entities = []\<rparr>;
             (err, s1) = queue_activity X (Const_activity a) s
         in case err of
              Some e \<Rightarrow> (Some e, s1)
            | None \<Rightarrow> (None, s1\<lparr>next_sequence := next_sequence s1 + 1\<rparr>)))"

definition queue_text_chunk ::
  "env \<Rightarrow> string \<Rightarrow> citation list option \<Rightarrow> streaming_response \<Rightarrow>
     error option \<times> streaming_response" where
  "queue_text_chunk X txt cits s =
     (if ended s then (Some stream_already_ended, s)
      else
        (let s1 = s\<lparr>message := message s @ txt\<rparr>;
             s2 = s1\<lparr>message := format_citations_response X (message s1)\<rparr>
         in queue_next_chunk X s2))"

section \<open>Sending\<close>

text \<open>
  \<^verbatim>\<open>send_activity\<close> up to the transport call: stream id, streaming entity, used
  citations, and the decorations guarded by \<^verbatim>\<open>self._ended\<close>.
\<close>

definition prepare_activity :: "env \<Rightarrow> activity \<Rightarrow> streaming_response \<Rightarrow> activity" where
  "prepare_activity X a0 s =
     (let cd0 = channel_data a0;
          cd1 = (if truthy (stream_id s) then cd0\<lparr>cd_stream_id := stream_id s\<rparr> else cd0);
          a1 = (if truthy (stream_id s) then a0\<lparr>channel_data := cd1\<rparr> else a0);
          a2 = a1\<lparr>entities :=
                 [Streaming_entity (cd_stream_id cd1) (stream_sequence cd1) (stream_type cd1)]\<rparr>;
          a3 = (if truthy (citations s) \<and> length (the (citations s)) > 0 \<and> \<not> ended s then
                  a2\<lparr>entities := entities a2 @
                     [AI_entity []
                        (case get_used_citations X (message s) (the (citations s)) of
                           None \<Rightarrow> [] | Some cc \<Rightarrow> cc)
                        None]\<rparr>
                else a2)
      in if ended s then
           (let cd2 = channel_data a3;
                cd3 = (if enable_feedback_loop s
                       then cd2\<lparr>feedback_loop_enabled := Some (enable_feedback_loop s)\<rparr>
                       else cd2);
                cd4 = (if \<not> enable_feedback_loop s \<and> feedback_loop_type s \<noteq> None
                       then cd3\<lparr>cd_feedback_loop_type := feedback_loop_type s\<rparr>
                       else cd3);
                a4 = a3\<lparr>channel_data := cd4\<rparr>
            in if enable_generated_by_ai_label s then
                 a4\<lparr>entities := entities a4 @
                    [AI_entity [''AIGeneratedContent'']
                       (if truthy (citations s) then the (citations s) else [])
                       (sensitivity_label s)]\<rparr>
               else a4)
         else a3)"

text \<open>
  \<^verbatim>\<open>send_activity\<close>: the prepared activity goes to the transport; a raise propagates
  (the state keeps what was done before it), a response with the stream id still unset
  stores \<^verbatim>\<open>response.id\<close>.
\<close>

definition send_activity ::
  "env \<Rightarrow> activity \<Rightarrow> streaming_response \<Rightarrow> error option \<times> streaming_response" where
  "send_activity X a0 s =
     (let a = prepare_activity X a0 s;
          s1 = s\<lparr>outbox := outbox s @ [a]\<rparr>
      in case context_send_activity X (outbox s) a of
           Raises \<Rightarrow> (Some Transport_error, s1)
         | Returns response \<Rightarrow>
             (None,
              if \<not> truthy (stream_id s1) \<and> response \<noteq> None
              then s1\<lparr>stream_id := response_id (the response)\<rparr>
              else s1))"

section \<open>The drain task\<close>

text \<open>
  One scheduling of the task created by \<^verbatim>\<open>drain_queue\<close>: the loop test and, when the
  queue is not empty, one iteration (pop, call the factory, send).  When the queue is
  empty, or the send raises, the \<^verbatim>\<open>finally\<close> clause clears \<^verbatim>\<open>_queue_sync\<close> and the task
  is over.  Producer calls are synchronous and touch neither the stream id nor the
  outbox, so a call made while a send is awaited has the effect of the same call made
  before the next scheduling; one iteration is therefore one step.
\<close>

definition drain_queue_step ::
  "env \<Rightarrow> streaming_response \<Rightarrow> error option \<times> streaming_response" where
  "drain_queue_step X s =
     (if \<not> queue_sync s then (None, s)
      else
        (case queue s of
           [] \<Rightarrow> (None, s\<lparr>queue_sync := False\<rparr>)
         | factory # rest \<Rightarrow>
             (let (a, s1) = call_factory factory (s\<lparr>queue := rest\<rparr>);
                  (err, s2) = send_activity X a s1
              in case err of
                   Some e \<Rightarrow> (Some e, s2\<lparr>queue_sync := False\<rparr>)
                 | None \<Rightarrow> (None, s2))))"

text \<open>
  \<^verbatim>\<open>wait_for_queue\<close>: with a task stored, await it, that is, let it run until it is
  over, and re-raise what it raised; with none, yield once and return.
\<close>

function wait_for_queue ::
  "env \<Rightarrow> streaming_response \<Rightarrow> error option \<times> streaming_response" where
  "wait_for_queue X s =
     (if queue_sync s then
        (case drain_queue_step X s of
           (Some e, s') \<Rightarrow> (Some e, s')
         | (None, s') \<Rightarrow> wait_for_queue X s')
      else (None, s))"
  by pat_completeness auto

lemma call_factory_queue [simp]:
  "queue (snd (call_factory f s)) = queue s"
  "queue_sync (snd (call_factory f s)) = queue_sync s"
  by (cases f; simp add: format_next_chunk_def Let_def)+

lemma send_activity_queue [simp]:
  "queue (snd (send_activity X a s)) = queue s"
  "queue_sync (snd (send_activity X a s)) = queue_sync s"
  by (simp_all add: send_activity_def Let_def split: send_result.splits)

lemma drain_queue_step_measure:
  assumes "queue_sync s" and "drain_queue_step X s = (None, s')"
  shows "(if queue_sync s' then Suc (length (queue s')) else 0) < Suc (length (queue s))"
proof (cases "queue s")
  case Nil
  with assms show ?thesis by (auto simp add: drain_queue_step_def)
next
  case (Cons f rest)
  obtain a s1 where f: "call_factory f (s\<lparr>queue := rest\<rparr>) = (a, s1)"
    by (cases "call_factory f (s\<lparr>queue := rest\<rparr>)")
  obtain err s2 where snd: "send_activity X a s1 = (err, s2)"
    by (cases "send_activity X a s1")
  from f have q1: "queue s1 = rest"
    using call_factory_queue(1) [of f "s\<lparr>queue := rest\<rparr>"] by simp
  from snd have q2: "queue s2 = queue s1"
    using send_activity_queue(1) [of X a s1] by simp
  from assms Cons f snd have "s' = s2"
    by (simp add: drain_queue_step_def split: option.splits)
  with q1 q2 Cons show ?thesis by simp
qed

lemma drain_queue_step_decreases:
  assumes "queue_sync s" and "(None, s') = drain_queue_step X s" and "queue_sync s'"
  shows "length (queue s') < length (queue s)"
  using drain_queue_step_measure [OF assms(1) assms(2) [symmetric]] assms(3) by simp

termination wait_for_queue
  by (relation "measure (\<lambda>(X, s). if queue_sync s then Suc (length (queue s)) else 0)")
     (auto intro: drain_queue_step_decreases)

declare wait_for_queue.simps [simp del]

text \<open>
  \<^verbatim>\<open>end_stream\<close>, first the synchronous part (the check, the flag, the coalesced
  flush), then the whole coroutine, which waits for the queue unless the first part
  raised.
\<close>

definition end_stream_begin ::
  "env \<Rightarrow> streaming_response \<Rightarrow> error option \<times> streaming_response" where
  "end_stream_begin X s =
     (if ended s then (Some stream_already_ended, s)
      else queue_next_chunk X (s\<lparr>ended := True\<rparr>))"

definition end_stream ::
  "env \<Rightarrow> streaming_response \<Rightarrow> error option \<times> streaming_response" where
  "end_stream X s =
     (case end_stream_begin X s of
        (Some e, s1) \<Rightarrow> (Some e, s1)
      | (None, s1) \<Rightarrow> wait_for_queue X s1)"

section \<open>Runs\<close>

text \<open>
  What can happen to one engine, in any order: the calls of its public methods and the
  schedulings of its drain task.  \<open>End_stream\<close> is the synchronous part of
  \<^verbatim>\<open>end_stream\<close>; the wait that follows is a number of \<open>Drain\<close> events.  An event
  gives the state the call leaves, whether it returned or raised: a call on an ended
  stream raises before it writes, a call that cannot create the drain task raises after
  its job is appended.  A raise inside the detached drain task is kept by the task and
  not seen here.
\<close>

datatype event =
  Set_attachments "attachment list"
| Set_feedback_loop bool
| Set_feedback_loop_type feedback_loop_kind
| Set_sensitivity_label sensitivity_usage_info
| Set_generated_by_ai_label bool
| Set_citations "citation list"
| Queue_informative_update string
| Queue_text_chunk string "citation list option"
| End_stream
| Drain

fun apply_event :: "env \<Rightarrow> event \<Rightarrow> streaming_response \<Rightarrow> streaming_response" where
  "apply_event X (Set_attachments a) s = set_attachments a s"
| "apply_event X (Set_feedback_loop b) s = set_feedback_loop b s"
| "apply_event X (Set_feedback_loop_type k) s = set_feedback_loop_type k s"
| "apply_event X (Set_sensitivity_label l) s = set_sensitivity_label l s"
| "apply_event X (Set_generated_by_ai_label b) s = set_generated_by_ai_label b s"
| "apply_event X (Set_citations cs) s = set_citations X cs s"
| "apply_event X (Queue_informative_update txt) s = snd (queue_informative_update X txt s)"
| "apply_event X (Queue_text_chunk txt cits) s = snd (queue_text_chunk X txt cits s)"
| "apply_event X End_stream s = snd (end_stream_begin X s)"
| "apply_event X Drain s = snd (drain_queue_step X s)"

fun run :: "env \<Rightarrow> event list \<Rightarrow> streaming_response \<Rightarrow> streaming_response" where
  "run X [] s = s"
| "run X (e # es) s = run X es (apply_event X e s)"

section \<open>A concrete environment\<close>

text \<open>
  Collaborators to evaluate runs with: the citation formatter changes nothing, no citation
  counts as used, the snippet is a prefix, the transport accepts every activity and
  answers with the same identifier, and an event loop is running at every call.
\<close>

definition plain_env :: env where
  "plain_env =
     \<lparr>format_citations_response = (\<lambda>t. t),
      get_used_citations = (\<lambda>t cs. None),
      snippet = (\<lambda>t n. take n t),
      context_send_activity = (\<lambda>h a. Returns (Some (Resource_response (Some ''s1'')))),
      create_task_raises = (\<lambda>s. False)\<rparr>"

text \<open>The activities handed to the transport while the events \<open>es\<close> run from \<open>s\<close>.\<close>

definition sent_during :: "env \<Rightarrow> event list \<Rightarrow> streaming_response \<Rightarrow> activity list" where
  "sent_during X es s = drop (length (outbox s)) (outbox (run X es s))"

text \<open>The activity that \<^verbatim>\<open>queue_informative_update("Thinking...")\<close> builds on a fresh engine.\<close>

definition thinking :: activity where
  "thinking =
     \<lparr>act_type = Typing, act_text = ''Thinking...'', act_attachments = None,
      channel_data =
        \<lparr>stream_type = Informative, stream_sequence = Some 1, cd_stream_id = None,
         feedback_loop_enabled = None, cd_feedback_loop_type = None\<rparr>,
      entities = []\<rparr>"

text \<open>The two kinds of queued job, and the terminal activity.\<close>

fun is_chunk_job :: "job \<Rightarrow> bool" where
  "is_chunk_job Format_next_chunk = True"
| "is_chunk_job (Const_activity a) = False"

definition is_final :: "activity \<Rightarrow> bool" where
  "is_final a \<longleftrightarrow> act_type a = Message \<and> stream_type (channel_data a) = Final"

text \<open>A transport whose first call raises and whose later calls succeed.\<close>

definition fail_first_env :: env where
  "fail_first_env =
     plain_env\<lparr>context_send_activity :=
       (\<lambda>h a. if h = [] then Raises else Returns (Some (Resource_response (Some ''s1''))))\<rparr>"

text \<open>The sequence numbers carried by a list of activities, in order.\<close>

fun sequences :: "activity list \<Rightarrow> int list" where
  "sequences [] = []"
| "sequences (a # as) =
     (case stream_sequence (channel_data a) of
        None \<Rightarrow> sequences as
      | Some n \<Rightarrow> n # sequences as)"

text \<open>
  No event loop is running when the first job is queued: \<^verbatim>\<open>create_task\<close> raises while
  the queue holds that one job, and works afterwards.
\<close>

definition no_loop_at_first_env :: env where
  "no_loop_at_first_env = plain_env\<lparr>create_task_raises := (\<lambda>s. length (queue s) = 1)\<rparr>"

text \<open>
  Three registered sources, and collaborators for which the text refers to the second one
  only: the used-citations filter keeps the citation at position 2.
\<close>

definition three_sources :: "citation list" where
  "three_sources =
     [\<lparr>content = ''alpha'', title = Some ''A''\<rparr>,
      \<lparr>content = ''beta'', title = Some ''B''\<rparr>,
      \<lparr>content = ''gamma'', title = Some ''C''\<rparr>]"

definition three_citations :: "client_citation list" where
  "three_citations =
     [\<lparr>position = 1, appearance = \<lparr>name = ''A'', abstract = ''alpha''\<rparr>\<rparr>,
      \<lparr>position = 2, appearance = \<lparr>name = ''B'', abstract = ''beta''\<rparr>\<rparr>,
      \<lparr>position = 3, appearance = \<lparr>name = ''C'', abstract = ''gamma''\<rparr>\<rparr>]"

definition second_only_env :: env where
  "second_only_env =
     plain_env\<lparr>get_used_citations := (\<lambda>t cs. Some (filter (\<lambda>c. position c = 2) cs))\<rparr>"

section \<open>Several engines in one process\<close>

text \<open>
  The attributes in the class body are class attributes, and \<^verbatim>\<open>__init__\<close> assigns only
  \<^verbatim>\<open>_context\<close>.  An instance reads the class attribute until it assigns its own, which
  every \<^verbatim>\<open>self._x = ...\<close> does.  \<^verbatim>\<open>_queue\<close> is never assigned: \<^verbatim>\<open>queue_activity\<close> and
  the drain loop change the list in place, and that list is the one the class body
  created.  A process therefore has one queue, whose jobs are kept with the number of
  the instance whose closure they are, and the other attributes once per instance.
\<close>

record process =
  class_queue :: "(nat \<times> job) list"
  instances :: "nat \<Rightarrow> streaming_response option"

definition new_process :: process where
  "new_process = \<lparr>class_queue = [], instances = (\<lambda>i. None)\<rparr>"

text \<open>\<^verbatim>\<open>StreamingResponse(context)\<close>: a new instance, number \<open>i\<close>, with no attribute of its own.\<close>

definition construct :: "nat \<Rightarrow> process \<Rightarrow> process" where
  "construct i p = p\<lparr>instances := (instances p)(i \<mapsto> new_streaming_response)\<rparr>"

text \<open>What instance \<open>i\<close> reads: its own attributes, and the queue of the class.\<close>

definition attributes_of :: "process \<Rightarrow> nat \<Rightarrow> streaming_response" where
  "attributes_of p i = (the (instances p i))\<lparr>queue := map snd (class_queue p)\<rparr>"

text \<open>
  A call of a setter or a producer method on instance \<open>i\<close>: such a method only appends to
  the queue, and what it appends are closures of instance \<open>i\<close>.
\<close>

definition call_on ::
  "nat \<Rightarrow> (streaming_response \<Rightarrow> streaming_response) \<Rightarrow> process \<Rightarrow> process" where
  "call_on i m p =
     (let s = attributes_of p i;
          s' = m s
      in p\<lparr>class_queue :=
             class_queue p @ map (Pair i) (drop (length (queue s)) (queue s')),
           instances := (instances p)(i \<mapsto> s')\<rparr>)"

section \<open>Frame lemmas\<close>

text \<open>Which attributes the factory call, the send and one drain step leave alone.\<close>

lemma call_factory_frame [simp]:
  "stream_id (snd (call_factory f s)) = stream_id s"
  "message (snd (call_factory f s)) = message s"
  "attachments (snd (call_factory f s)) = attachments s"
  "ended (snd (call_factory f s)) = ended s"
  "citations (snd (call_factory f s)) = citations s"
  "sensitivity_label (snd (call_factory f s)) = sensitivity_label s"
  "enable_feedback_loop (snd (call_factory f s)) = enable_feedback_loop s"
  "feedback_loop_type (snd (call_factory f s)) = feedback_loop_type s"
  "enable_generated_by_ai_label (snd (call_factory f s)) = enable_generated_by_ai_label s"
  "outbox (snd (call_factory f s)) = outbox s"
  by (cases f; simp add: format_next_chunk_def Let_def)+

lemma send_activity_frame [simp]:
  "next_sequence (snd (send_activity X a s)) = next_sequence s"
  "message (snd (send_activity X a s)) = message s"
  "attachments (snd (send_activity X a s)) = attachments s"
  "ended (snd (send_activity X a s)) = ended s"
  "citations (snd (send_activity X a s)) = citations s"
  "sensitivity_label (snd (send_activity X a s)) = sensitivity_label s"
  "enable_feedback_loop (snd (send_activity X a s)) = enable_feedback_loop s"
  "feedback_loop_type (snd (send_activity X a s)) = feedback_loop_type s"
  "enable_generated_by_ai_label (snd (send_activity X a s)) = enable_generated_by_ai_label s"
  "chunk_queued (snd (send_activity X a s)) = chunk_queued s"
  "outbox (snd (send_activity X a s)) = outbox s @ [prepare_activity X a s]"
  by (simp_all add: send_activity_def Let_def split: send_result.splits)

lemma drain_queue_step_frame [simp]:
  "message (snd (drain_queue_step X s)) = message s"
  "attachments (snd (drain_queue_step X s)) = attachments s"
  "ended (snd (drain_queue_step X s)) = ended s"
  "citations (snd (drain_queue_step X s)) = citations s"
  "sensitivity_label (snd (drain_queue_step X s)) = sensitivity_label s"
  "enable_feedback_loop (snd (drain_queue_step X s)) = enable_feedback_loop s"
  "feedback_loop_type (snd (drain_queue_step X s)) = feedback_loop_type s"
  "enable_generated_by_ai_label (snd (drain_queue_step X s)) = enable_generated_by_ai_label s"
  by (simp_all add: drain_queue_step_def Let_def case_prod_beta split: list.splits option.splits)

lemmas setter_defs = set_attachments_def set_feedback_loop_def set_feedback_loop_type_def
  set_sensitivity_label_def set_generated_by_ai_label_def

lemma queue_activity_frame [simp]:
  "next_sequence (snd (queue_activity X f s)) = next_sequence s"
  "stream_id (snd (queue_activity X f s)) = stream_id s"
  "message (snd (queue_activity X f s)) = message s"
  "attachments (snd (queue_activity X f s)) = attachments s"
  "ended (snd (queue_activity X f s)) = ended s"
  "citations (snd (queue_activity X f s)) = citations s"
  "sensitivity_label (snd (queue_activity X f s)) = sensitivity_label s"
  "enable_feedback_loop (snd (queue_activity X f s)) = enable_feedback_loop s"
  "feedback_loop_type (snd (queue_activity X f s)) = feedback_loop_type s"
  "enable_generated_by_ai_label (snd (queue_activity X f s)) = enable_generated_by_ai_label s"
  "chunk_queued (snd (queue_activity X f s)) = chunk_queued s"
  "outbox (snd (queue_activity X f s)) = outbox s"
  "queue (snd (queue_activity X f s)) = queue s @ [f]"
  by (simp_all add: queue_activity_def Let_def)

lemma queue_next_chunk_frame [simp]:
  "next_sequence (snd (queue_next_chunk X s)) = next_sequence s"
  "stream_id (snd (queue_next_chunk X s)) = stream_id s"
  "message (snd (queue_next_chunk X s)) = message s"
  "attachments (snd (queue_next_chunk X s)) = attachments s"
  "ended (snd (queue_next_chunk X s)) = ended s"
  "citations (snd (queue_next_chunk X s)) = citations s"
  "sensitivity_label (snd (queue_next_chunk X s)) = sensitivity_label s"
  "enable_feedback_loop (snd (queue_next_chunk X s)) = enable_feedback_loop s"
  "feedback_loop_type (snd (queue_next_chunk X s)) = feedback_loop_type s"
  "enable_generated_by_ai_label (snd (queue_next_chunk X s)) = enable_generated_by_ai_label s"
  "chunk_queued (snd (queue_next_chunk X s)) = True"
  "outbox (snd (queue_next_chunk X s)) = outbox s"
  "queue (snd (queue_next_chunk X s)) =
     (if chunk_queued s then queue s else queue s @ [Format_next_chunk])"
  by (simp_all add: queue_next_chunk_def)

lemma queue_informative_update_frame [simp]:
  "stream_id (snd (queue_informative_update X t s)) = stream_id s"
  "message (snd (queue_informative_update X t s)) = message s"
  "ended (snd (queue_informative_update X t s)) = ended s"
  "citations (snd (queue_informative_update X t s)) = citations s"
  "chunk_queued (snd (queue_informative_update X t s)) = chunk_queued s"
  "outbox (snd (queue_informative_update X t s)) = outbox s"
  by (simp_all add: queue_informative_update_def Let_def case_prod_beta split: option.splits)

lemma queue_text_chunk_frame [simp]:
  "stream_id (snd (queue_text_chunk X t c s)) = stream_id s"
  "ended (snd (queue_text_chunk X t c s)) = ended s"
  "citations (snd (queue_text_chunk X t c s)) = citations s"
  "outbox (snd (queue_text_chunk X t c s)) = outbox s"
  by (simp_all add: queue_text_chunk_def Let_def)

lemma end_stream_begin_frame [simp]:
  "stream_id (snd (end_stream_begin X s)) = stream_id s"
  "message (snd (end_stream_begin X s)) = message s"
  "ended (snd (end_stream_begin X s)) = True"
  "citations (snd (end_stream_begin X s)) = citations s"
  "outbox (snd (end_stream_begin X s)) = outbox s"
  by (simp_all add: end_stream_begin_def)

text \<open>The ended flag is never cleared.\<close>

lemma ended_apply_event: "ended s \<Longrightarrow> ended (apply_event X e s)"
  by (cases e) (simp_all add: setter_defs set_citations_def Let_def)

lemma ended_run: "ended s \<Longrightarrow> ended (run X es s)"
  by (induction es arbitrary: s) (auto simp: ended_apply_event)

text \<open>Only \<^verbatim>\<open>set_citations\<close> writes the citation list.\<close>

lemma citations_apply_event:
  assumes "\<And>cs. e \<noteq> Set_citations cs"
  shows "citations (apply_event X e s) = citations s"
proof (cases e)
  case (Set_citations cs)
  with assms show ?thesis by blast
qed (simp_all add: setter_defs)

text \<open>The stream id: stamped when set, and kept once set.\<close>

lemma prepare_activity_stream_id:
  "truthy (stream_id s) \<Longrightarrow> cd_stream_id (channel_data (prepare_activity X a s)) = stream_id s"
  by (simp add: prepare_activity_def Let_def)

lemma send_activity_stream_id:
  "truthy (stream_id s) \<Longrightarrow> stream_id (snd (send_activity X a s)) = stream_id s"
  by (simp add: send_activity_def Let_def split: send_result.splits)

lemma drain_queue_step_outbox:
  "outbox (snd (drain_queue_step X s)) =
     (if queue_sync s \<and> queue s \<noteq> []
      then outbox s @ [prepare_activity X
              (fst (call_factory (hd (queue s)) (s\<lparr>queue := tl (queue s)\<rparr>)))
              (snd (call_factory (hd (queue s)) (s\<lparr>queue := tl (queue s)\<rparr>)))]
      else outbox s)"
  by (simp add: drain_queue_step_def Let_def case_prod_beta split: list.splits option.splits)

lemma drain_queue_step_stream_id:
  "truthy (stream_id s) \<Longrightarrow> stream_id (snd (drain_queue_step X s)) = stream_id s"
  by (simp add: drain_queue_step_def Let_def case_prod_beta send_activity_stream_id
        split: list.splits option.splits)

lemma outbox_apply_event:
  "e \<noteq> Drain \<Longrightarrow> outbox (apply_event X e s) = outbox s"
  by (cases e) (simp_all add: setter_defs set_citations_def Let_def)

lemma stream_id_apply_event:
  "truthy (stream_id s) \<Longrightarrow> stream_id (apply_event X e s) = stream_id s"
  by (cases e)
     (simp_all add: setter_defs set_citations_def Let_def drain_queue_step_stream_id)

lemma outbox_apply_event_stamped:
  assumes "truthy (stream_id s)"
  shows "\<exists>new. outbox (apply_event X e s) = outbox s @ new
           \<and> (\<forall>b \<in> set new. cd_stream_id (channel_data b) = stream_id s)"
proof (cases "e = Drain")
  case True
  then show ?thesis
    using assms by (simp add: drain_queue_step_outbox prepare_activity_stream_id)
next
  case False
  then show ?thesis by (simp add: outbox_apply_event)
qed

lemma run_stamped:
  assumes "truthy (stream_id s)"
  shows "stream_id (run X es s) = stream_id s
       \<and> (\<exists>new. outbox (run X es s) = outbox s @ new
           \<and> (\<forall>b \<in> set new. cd_stream_id (channel_data b) = stream_id s))"
  using assms
proof (induction es arbitrary: s)
  case Nil
  then show ?case by simp
next
  case (Cons e es)
  let ?t = "apply_event X e s"
  have id: "stream_id ?t = stream_id s" using Cons.prems by (rule stream_id_apply_event)
  then have tr: "truthy (stream_id ?t)" using Cons.prems by simp
  obtain n1 where n1: "outbox ?t = outbox s @ n1"
      "\<forall>b \<in> set n1. cd_stream_id (channel_data b) = stream_id s"
    using outbox_apply_event_stamped [OF Cons.prems] by blast
  obtain n2 where n2: "outbox (run X es ?t) = outbox ?t @ n2"
      "\<forall>b \<in> set n2. cd_stream_id (channel_data b) = stream_id ?t"
    using Cons.IH [OF tr] by blast
  have "outbox (run X (e # es) s) = outbox s @ (n1 @ n2)" using n1 n2 by simp
  moreover have "\<forall>b \<in> set (n1 @ n2). cd_stream_id (channel_data b) = stream_id s"
    using n1 n2 id by auto
  moreover have "stream_id (run X (e # es) s) = stream_id s"
    using Cons.IH [OF tr] id by simp
  ultimately show ?case by blast
qed

text \<open>The invariant holds at the start and after every event.\<close>

text \<open>Text chunks with no drain step in between.\<close>

lemma text_chunks_run:
  assumes "\<not> ended s"
  shows "\<not> ended (run X (map (\<lambda>(t, c). Queue_text_chunk t c) tcs) s)
     \<and> message (run X (map (\<lambda>(t, c). Queue_text_chunk t c) tcs) s) =
         foldl (\<lambda>m t. format_citations_response X (m @ t)) (message s) (map fst tcs)
     \<and> queue (run X (map (\<lambda>(t, c). Queue_text_chunk t c) tcs) s) =
         (if tcs = [] \<or> chunk_queued s then queue s else queue s @ [Format_next_chunk])
     \<and> chunk_queued (run X (map (\<lambda>(t, c). Queue_text_chunk t c) tcs) s) =
         (tcs \<noteq> [] \<or> chunk_queued s)"
  using assms
proof (induction tcs arbitrary: s)
  case Nil
  then show ?case by simp
next
  case (Cons tc tcs)
  obtain t c where tc: "tc = (t, c)" by (cases tc)
  let ?s1 = "apply_event X (Queue_text_chunk t c) s"
  have s1: "\<not> ended ?s1" "message ?s1 = format_citations_response X (message s @ t)"
      "queue ?s1 = (if chunk_queued s then queue s else queue s @ [Format_next_chunk])"
      "chunk_queued ?s1"
    using Cons.prems by (simp_all add: queue_text_chunk_def Let_def)
  from Cons.IH [OF s1(1)] s1 tc show ?case by simp
qed

lemma drains_frame:
  "message (run X (replicate n Drain) s) = message s"
  "ended (run X (replicate n Drain) s) = ended s"
  by (induction n arbitrary: s) simp_all

text \<open>With no drain task stored, drain steps do nothing.\<close>

lemma idle_drains: "\<not> queue_sync s \<Longrightarrow> run X (replicate n Drain) s = s"
  by (induction n) (simp_all add: drain_queue_step_def)

text \<open>
  What \<^verbatim>\<open>send_activity\<close> attaches is decided by the ended flag of the engine, not by the
  kind of the activity: before the end the used citations, after it the decorations.
\<close>

lemma prepare_activity_before_end:
  assumes "\<not> ended s"
  shows "entities (prepare_activity X a s) =
           Streaming_entity (if truthy (stream_id s) then stream_id s
                             else cd_stream_id (channel_data a))
             (stream_sequence (channel_data a)) (stream_type (channel_data a)) #
           (if truthy (citations s)
            then [AI_entity []
                    (case get_used_citations X (message s) (the (citations s)) of
                       None \<Rightarrow> [] | Some cc \<Rightarrow> cc) None]
            else [])"
    and "feedback_loop_enabled (channel_data (prepare_activity X a s)) =
           feedback_loop_enabled (channel_data a)"
    and "cd_feedback_loop_type (channel_data (prepare_activity X a s)) =
           cd_feedback_loop_type (channel_data a)"
  using assms by (cases "citations s"; simp add: prepare_activity_def Let_def)+

lemma prepare_activity_after_end:
  assumes "ended s"
  shows "entities (prepare_activity X a s) =
           Streaming_entity (if truthy (stream_id s) then stream_id s
                             else cd_stream_id (channel_data a))
             (stream_sequence (channel_data a)) (stream_type (channel_data a)) #
           (if enable_generated_by_ai_label s
            then [AI_entity [''AIGeneratedContent'']
                    (if truthy (citations s) then the (citations s) else [])
                    (sensitivity_label s)]
            else [])"
    and "feedback_loop_enabled (channel_data a) = None \<Longrightarrow>
         cd_feedback_loop_type (channel_data a) = None \<Longrightarrow>
         feedback_loop_enabled (channel_data (prepare_activity X a s)) = None
         \<or> cd_feedback_loop_type (channel_data (prepare_activity X a s)) = None"
  using assms by (simp_all add: prepare_activity_def Let_def)

section \<open>Calls after the end of the stream\<close>

text \<open>
  C4.  Once the synchronous part of \<^verbatim>\<open>end_stream\<close> has run, and whatever happens next
  (drain steps, setters, further calls), each of \<^verbatim>\<open>queue_informative_update\<close>,
  \<^verbatim>\<open>queue_text_chunk\<close> and \<^verbatim>\<open>end_stream\<close> raises "The stream has already ended."
  at once and leaves the whole state, with its message, queue and sequence counter, as it
  was.
\<close>

theorem calls_after_end_stream_fail:
  assumes "s1 = snd (end_stream_begin X s0)" and "s = run X es s1"
  shows "queue_informative_update X t s = (Some stream_already_ended, s)
       \<and> queue_text_chunk X t cits s = (Some stream_already_ended, s)
       \<and> end_stream_begin X s = (Some stream_already_ended, s)
       \<and> end_stream X s = (Some stream_already_ended, s)
       \<and> apply_event X (Queue_informative_update t) s = s
       \<and> apply_event X (Queue_text_chunk t cits) s = s
       \<and> apply_event X End_stream s = s"
proof -
  have "ended s" using assms by (simp add: ended_run)
  then show ?thesis
    by (simp add: queue_informative_update_def queue_text_chunk_def end_stream_begin_def
          end_stream_def)
qed

theorem calls_after_end_stream_fail_witness:
  "queue_informative_update plain_env ''late''
       (run plain_env [Drain] (snd (end_stream_begin plain_env new_streaming_response)))
     = (Some stream_already_ended,
        run plain_env [Drain] (snd (end_stream_begin plain_env new_streaming_response)))
   \<and> apply_event plain_env End_stream
       (run plain_env [Drain] (snd (end_stream_begin plain_env new_streaming_response)))
     = run plain_env [Drain] (snd (end_stream_begin plain_env new_streaming_response))"
  using calls_after_end_stream_fail [OF refl refl, where X = plain_env and es = "[Drain]"
      and t = "''late''" and cits = None and ?s0.0 = new_streaming_response]
  by blast

section \<open>The citations argument of a text chunk\<close>

text \<open>
  C10.  \<^verbatim>\<open>queue_text_chunk(text, citations)\<close> does what \<^verbatim>\<open>queue_text_chunk(text, None)\<close>
  does: the same result, hence the same state and the same activities sent in every
  continuation.  The citation list of the engine is not touched by it; the only event that
  changes the citation list is \<^verbatim>\<open>set_citations\<close>.
\<close>

theorem queue_text_chunk_ignores_citations:
  "queue_text_chunk X t cits s = queue_text_chunk X t None s
   \<and> run X (Queue_text_chunk t cits # es) s = run X (Queue_text_chunk t None # es) s
   \<and> citations (apply_event X (Queue_text_chunk t cits) s) = citations s
   \<and> (citations (apply_event X e s) \<noteq> citations s \<longrightarrow> (\<exists>cs. e = Set_citations cs))"
proof -
  have a: "queue_text_chunk X t cits s = queue_text_chunk X t None s"
    by (simp add: queue_text_chunk_def)
  have b: "run X (Queue_text_chunk t cits # es) s = run X (Queue_text_chunk t None # es) s"
    by (simp add: a)
  have c: "citations (apply_event X (Queue_text_chunk t cits) s) = citations s"
    by (rule citations_apply_event) simp
  have d: "citations (apply_event X e s) \<noteq> citations s \<longrightarrow> (\<exists>cs. e = Set_citations cs)"
    using citations_apply_event [of e X s] by blast
  from a b c d show ?thesis by blast
qed

theorem queue_text_chunk_ignores_citations_witness:
  "citations (apply_event plain_env (Set_citations [\<lparr>content = ''body'', title = None\<rparr>])
      new_streaming_response) \<noteq> citations new_streaming_response
   \<and> (\<exists>cs. Set_citations [\<lparr>content = ''body'', title = None\<rparr>] = Set_citations cs)"
proof -
  have h: "citations (apply_event plain_env (Set_citations [\<lparr>content = ''body'', title = None\<rparr>])
      new_streaming_response) \<noteq> citations new_streaming_response"
    by (simp add: set_citations_def new_streaming_response_def)
  show ?thesis
    using h queue_text_chunk_ignores_citations
      [where e = "Set_citations [\<lparr>content = ''body'', title = None\<rparr>]"
         and X = plain_env and s = new_streaming_response]
    by blast
qed

section \<open>The stream identifier\<close>

text \<open>
  C5.  When no stream id is recorded yet and a send returns a response with a non-empty
  id, \<^verbatim>\<open>send_activity\<close> records that id.  From then on, whatever calls and drain steps
  follow, the recorded id stays the same, and every activity handed to the transport
  afterwards carries it in its channel data.
\<close>

theorem stream_id_recorded_once_and_stamped:
  assumes "\<not> truthy (stream_id s)"
    and "context_send_activity X (outbox s) (prepare_activity X a s) =
           Returns (Some (Resource_response (Some i)))"
    and "i \<noteq> []"
    and "s1 = snd (send_activity X a s)"
  shows "stream_id s1 = Some i
       \<and> stream_id (run X es s1) = Some i
       \<and> outbox (run X es s1) = outbox s1 @ sent_during X es s1
       \<and> (\<forall>b \<in> set (sent_during X es s1). cd_stream_id (channel_data b) = Some i)"
proof -
  have rec: "stream_id s1 = Some i"
    using assms by (simp add: send_activity_def Let_def)
  then have tr: "truthy (stream_id s1)" using assms(3) by simp
  obtain new where new: "outbox (run X es s1) = outbox s1 @ new"
      "\<forall>b \<in> set new. cd_stream_id (channel_data b) = stream_id s1"
    using run_stamped [OF tr] by blast
  then have "sent_during X es s1 = new" by (simp add: sent_during_def)
  with new rec run_stamped [OF tr, of X es] show ?thesis by simp
qed

theorem stream_id_recorded_once_and_stamped_witness:
  "\<not> truthy (stream_id new_streaming_response)
   \<and> context_send_activity plain_env (outbox new_streaming_response)
        (prepare_activity plain_env thinking new_streaming_response) =
       Returns (Some (Resource_response (Some ''s1'')))
   \<and> ''s1'' \<noteq> []
   \<and> stream_id (run plain_env [Queue_text_chunk ''Hello'' None, Drain]
        (snd (send_activity plain_env thinking new_streaming_response))) = Some ''s1''
   \<and> map (\<lambda>b. (act_text b, cd_stream_id (channel_data b)))
         (sent_during plain_env [Queue_text_chunk ''Hello'' None, Drain]
            (snd (send_activity plain_env thinking new_streaming_response))) =
       [(''Hello'', Some ''s1'')]"
proof -
  have h4: "map (\<lambda>b. (act_text b, cd_stream_id (channel_data b)))
         (sent_during plain_env [Queue_text_chunk ''Hello'' None, Drain]
            (snd (send_activity plain_env thinking new_streaming_response))) =
       [(''Hello'', Some ''s1'')]"
    by (simp add: sent_during_def send_activity_def plain_env_def new_streaming_response_def
         thinking_def queue_text_chunk_def queue_next_chunk_def
         queue_activity_def drain_queue_step_def format_next_chunk_def prepare_activity_def
         Let_def)
  have h1: "\<not> truthy (stream_id new_streaming_response)"
    by (simp add: new_streaming_response_def)
  have h2: "context_send_activity plain_env (outbox new_streaming_response)
        (prepare_activity plain_env thinking new_streaming_response) =
       Returns (Some (Resource_response (Some ''s1'')))"
    by (simp add: plain_env_def)
  have h3: "''s1'' \<noteq> []" by simp
  show ?thesis
    using h1 h2 h3 h4
      stream_id_recorded_once_and_stamped [OF h1 h2 h3 refl,
        where es = "[Queue_text_chunk ''Hello'' None, Drain]"]
    by blast
qed

section \<open>Coalescing of text chunks\<close>

text \<open>
  What the calls of one engine do to the list they find.  On a stream that has not ended,
  one or more calls of \<^verbatim>\<open>queue_text_chunk\<close> with no drain step in between append one
  \<^verbatim>\<open>_format_next_chunk\<close> job when the chunk flag was clear and none when it was set,
  whatever the number of calls.  When the drain task calls that job, after any number of
  drain steps, it yields a streaming activity whose text is the message with every chunk
  appended (and the citation formatter applied after each append).
\<close>

lemma text_chunks_appended_once:
  assumes "\<not> ended s"
    and "tcs \<noteq> []"
    and "s' = run X (map (\<lambda>(t, c). Queue_text_chunk t c) tcs) s"
    and "a = fst (call_factory Format_next_chunk (run X (replicate n Drain) s'))"
  shows "queue s' = (if chunk_queued s then queue s else queue s @ [Format_next_chunk])
       \<and> chunk_queued s'
       \<and> stream_type (channel_data a) = Streaming
       \<and> act_text a = foldl (\<lambda>m t. format_citations_response X (m @ t)) (message s) (map fst tcs)"
proof -
  note r = text_chunks_run [OF assms(1), of X tcs, folded assms(3)]
  have q: "queue s' = (if chunk_queued s then queue s else queue s @ [Format_next_chunk])"
    and f: "chunk_queued s'"
    using r assms(2) by simp_all
  have live: "\<not> ended (run X (replicate n Drain) s')"
    and msg: "message (run X (replicate n Drain) s') =
      foldl (\<lambda>m t. format_citations_response X (m @ t)) (message s) (map fst tcs)"
    using r by (simp_all add: drains_frame)
  have "stream_type (channel_data a) = Streaming"
      "act_text a = message (run X (replicate n Drain) s')"
    using live assms(4) by (simp_all add: format_next_chunk_def Let_def)
  with q f msg show ?thesis by simp
qed

text \<open>
  C3.  On a lone engine three calls of \<^verbatim>\<open>queue_text_chunk\<close> leave one chunk job in the
  queue.  But the queue is the list of the class: when another engine of the process has
  its chunk job waiting, the three calls of this engine append one more, and the queue
  this engine reads holds two jobs of kind streaming, not one.  The text of this engine
  still has all three chunks.
\<close>

theorem two_chunk_jobs_in_shared_queue:
  "length (filter is_chunk_job (queue (run plain_env
      [Queue_text_chunk ''Hello'' None, Queue_text_chunk '' '' None,
       Queue_text_chunk ''world'' None] new_streaming_response))) = 1
   \<and> class_queue
       (call_on 1 (apply_event plain_env (Queue_text_chunk ''world'' None))
         (call_on 1 (apply_event plain_env (Queue_text_chunk '' '' None))
           (call_on 1 (apply_event plain_env (Queue_text_chunk ''Hello'' None))
             (call_on 0 (apply_event plain_env (Queue_text_chunk ''Hi'' None))
               (construct 1 (construct 0 new_process)))))) =
     [(0, Format_next_chunk), (1, Format_next_chunk)]
   \<and> length (filter is_chunk_job (queue (attributes_of
       (call_on 1 (apply_event plain_env (Queue_text_chunk ''world'' None))
         (call_on 1 (apply_event plain_env (Queue_text_chunk '' '' None))
           (call_on 1 (apply_event plain_env (Queue_text_chunk ''Hello'' None))
             (call_on 0 (apply_event plain_env (Queue_text_chunk ''Hi'' None))
               (construct 1 (construct 0 new_process)))))) 1))) = 2
   \<and> message (attributes_of
       (call_on 1 (apply_event plain_env (Queue_text_chunk ''world'' None))
         (call_on 1 (apply_event plain_env (Queue_text_chunk '' '' None))
           (call_on 1 (apply_event plain_env (Queue_text_chunk ''Hello'' None))
             (call_on 0 (apply_event plain_env (Queue_text_chunk ''Hi'' None))
               (construct 1 (construct 0 new_process)))))) 1) = ''Hello world''"
  by (simp add: attributes_of_def call_on_def construct_def new_process_def
        new_streaming_response_def plain_env_def queue_text_chunk_def queue_next_chunk_def
        queue_activity_def Let_def)

section \<open>The terminal message\<close>

text \<open>
  C1.  The transport raises on its first call.  An informative update and a text chunk
  are queued and the drain task runs: the send of the informative update raises, the task
  is over, and the chunk job is still queued with the chunk flag set.  \<^verbatim>\<open>end_stream\<close> then
  sets the ended flag, enqueues nothing because the flag is set, finds no task to wait
  for, and returns normally: the queue still holds the chunk job, and no final activity
  has been sent.
\<close>

theorem end_stream_returns_with_final_unsent:
  "fst (end_stream fail_first_env
          (run fail_first_env
             [Queue_informative_update ''Thinking...'', Queue_text_chunk ''Hello'' None, Drain]
             new_streaming_response)) = None
   \<and> queue (snd (end_stream fail_first_env
          (run fail_first_env
             [Queue_informative_update ''Thinking...'', Queue_text_chunk ''Hello'' None, Drain]
             new_streaming_response))) = [Format_next_chunk]
   \<and> filter is_final (outbox (snd (end_stream fail_first_env
          (run fail_first_env
             [Queue_informative_update ''Thinking...'', Queue_text_chunk ''Hello'' None, Drain]
             new_streaming_response)))) = []"
  by (simp add: fail_first_env_def plain_env_def new_streaming_response_def
        queue_informative_update_def queue_text_chunk_def queue_next_chunk_def
        queue_activity_def drain_queue_step_def send_activity_def prepare_activity_def
        end_stream_def end_stream_begin_def wait_for_queue.simps is_final_def Let_def)

section \<open>A send that raises\<close>

text \<open>
  One drain step whose send raises.  The drain task is over at once: the step reports the
  transport error (so does \<^verbatim>\<open>wait_for_queue\<close> to a caller that awaits the task), no task
  is stored any more, exactly the one activity was handed to the transport, the jobs
  behind the failed one are still in the queue, not called, and further drain steps
  change nothing.
\<close>

lemma failed_send_stops_drain:
  assumes "queue_sync s"
    and "queue s = f # rest"
    and "context_send_activity X (outbox s)
           (prepare_activity X (fst (call_factory f (s\<lparr>queue := rest\<rparr>)))
              (snd (call_factory f (s\<lparr>queue := rest\<rparr>)))) = Raises"
    and "s' = snd (drain_queue_step X s)"
  shows "fst (drain_queue_step X s) = Some Transport_error
       \<and> \<not> queue_sync s'
       \<and> queue s' = rest
       \<and> outbox s' = outbox s @
            [prepare_activity X (fst (call_factory f (s\<lparr>queue := rest\<rparr>)))
               (snd (call_factory f (s\<lparr>queue := rest\<rparr>)))]
       \<and> run X (replicate n Drain) s' = s'
       \<and> wait_for_queue X s = (Some Transport_error, s')"
proof -
  let ?a = "fst (call_factory f (s\<lparr>queue := rest\<rparr>))"
  let ?s1 = "snd (call_factory f (s\<lparr>queue := rest\<rparr>))"
  have snd: "send_activity X ?a ?s1 =
      (Some Transport_error, ?s1\<lparr>outbox := outbox ?s1 @ [prepare_activity X ?a ?s1]\<rparr>)"
    using assms(3) by (simp add: send_activity_def Let_def)
  have step: "drain_queue_step X s =
      (Some Transport_error,
       ?s1\<lparr>outbox := outbox ?s1 @ [prepare_activity X ?a ?s1], queue_sync := False\<rparr>)"
    using assms(1,2) snd by (simp add: drain_queue_step_def Let_def case_prod_beta)
  have idle: "\<not> queue_sync s'" using step assms(4) by simp
  have "wait_for_queue X s = (Some Transport_error, s')"
    using assms(1,4) step by (simp add: wait_for_queue.simps [of X s])
  moreover have "queue s' = rest" using step assms(4) by simp
  moreover have "outbox s' = outbox s @ [prepare_activity X ?a ?s1]"
    using step assms(4) by simp
  ultimately show ?thesis using step idle idle_drains [OF idle] by simp
qed

text \<open>
  C8.  The transport raises on its first call.  Two informative updates \<open>a\<close> and \<open>b\<close> are
  queued and the drain task runs: the send of \<open>a\<close> raises and the task is marked idle
  with \<open>b\<close> still in the queue.  The next producer call finds no task stored and starts
  a new one, and that task begins with what was left: \<open>b\<close>, queued behind the failed
  \<open>a\<close>, is sent after the failure.
\<close>

theorem job_behind_failed_send_is_sent_later:
  "fst (drain_queue_step fail_first_env
      (run fail_first_env [Queue_informative_update ''a'', Queue_informative_update ''b'']
         new_streaming_response)) = Some Transport_error
   \<and> \<not> queue_sync (run fail_first_env
        [Queue_informative_update ''a'', Queue_informative_update ''b'', Drain]
        new_streaming_response)
   \<and> length (queue (run fail_first_env
        [Queue_informative_update ''a'', Queue_informative_update ''b'', Drain]
        new_streaming_response)) = 1
   \<and> map act_text (outbox (run fail_first_env
        [Queue_informative_update ''a'', Queue_informative_update ''b'', Drain,
         Queue_text_chunk ''c'' None, Drain] new_streaming_response)) = [''a'', ''b'']"
  by (simp add: fail_first_env_def plain_env_def new_streaming_response_def
        queue_informative_update_def queue_text_chunk_def queue_next_chunk_def
        queue_activity_def drain_queue_step_def send_activity_def prepare_activity_def Let_def)

section \<open>Sequence numbers\<close>

text \<open>
  C2.  An informative update takes its number when it is queued, a text chunk when its
  job is called by the drain task.  Queued behind a waiting chunk job, the informative
  update has the smaller number and is sent second: the numbers go out as 2, 1.  And when
  \<^verbatim>\<open>create_task\<close> raises in \<^verbatim>\<open>queue_informative_update\<close>, the job is queued with its number
  but the counter is not advanced, so the next informative update takes the same number:
  the numbers go out as 1, 1.
\<close>

theorem sequence_numbers_out_of_order_and_repeated:
  "sequences (outbox (run plain_env
      [Queue_text_chunk ''Hello'' None, Queue_informative_update ''Thinking...'', Drain, Drain]
      new_streaming_response)) = [2, 1]
   \<and> fst (queue_informative_update no_loop_at_first_env ''a'' new_streaming_response) =
       Some task_not_created
   \<and> sequences (outbox (run no_loop_at_first_env
      [Queue_informative_update ''a'', Queue_informative_update ''b'', Drain, Drain]
      new_streaming_response)) = [1, 1]"
  by (simp add: no_loop_at_first_env_def plain_env_def new_streaming_response_def
        queue_informative_update_def queue_text_chunk_def queue_next_chunk_def
        queue_activity_def drain_queue_step_def send_activity_def prepare_activity_def
        format_next_chunk_def Let_def)

section \<open>Citations on the activities sent\<close>

text \<open>
  C6.  Three citations are registered, the text refers to the second only, and the AI
  label is enabled.  The streaming activity sent before the end carries the second
  citation only, and the final activity carries all three with the label.  But the
  informative update queued before \<^verbatim>\<open>end_stream\<close> and sent after it, which is not the final
  activity, carries all three citations with the label instead of the second citation
  only: \<^verbatim>\<open>send_activity\<close> tests the ended flag of the engine, not the kind of the
  activity it sends.
\<close>

theorem informative_update_sent_after_end_gets_all_citations:
  "map (\<lambda>a. (stream_type (channel_data a), tl (entities a)))
     (outbox (run second_only_env
        [Set_citations three_sources, Set_generated_by_ai_label True,
         Queue_text_chunk ''See [2].'' None, Drain,
         Queue_informative_update ''Checking...'', End_stream, Drain, Drain]
        new_streaming_response)) =
   [(Streaming, [AI_entity [] [three_citations ! 1] None]),
    (Informative, [AI_entity [''AIGeneratedContent''] three_citations None]),
    (Final, [AI_entity [''AIGeneratedContent''] three_citations None])]"
  by (simp add: second_only_env_def plain_env_def new_streaming_response_def setter_defs
        set_citations_def three_sources_def three_citations_def
        queue_informative_update_def queue_text_chunk_def queue_next_chunk_def
        queue_activity_def drain_queue_step_def send_activity_def prepare_activity_def
        end_stream_begin_def format_next_chunk_def Let_def)

section \<open>Decorations of the terminal message\<close>

text \<open>
  C7.  With the feedback loop and the AI label enabled and a sensitivity label set, an
  informative update queued before \<^verbatim>\<open>end_stream\<close> and sent after it is a typing activity
  of kind informative, not the final message, and yet it carries the feedback flag and
  the AI entity with the sensitivity label.
\<close>

theorem informative_update_sent_after_end_is_decorated:
  "map (\<lambda>a. (act_type a, stream_type (channel_data a),
              feedback_loop_enabled (channel_data a), entities a))
     (outbox (run plain_env
        [Set_feedback_loop True, Set_generated_by_ai_label True,
         Set_sensitivity_label ''confidential'',
         Queue_informative_update ''Thinking...'', End_stream, Drain]
        new_streaming_response)) =
   [(Typing, Informative, Some True,
     [Streaming_entity None (Some 1) Informative,
      AI_entity [''AIGeneratedContent''] [] (Some ''confidential'')])]"
  by (simp add: plain_env_def new_streaming_response_def setter_defs
        queue_informative_update_def queue_next_chunk_def
        queue_activity_def drain_queue_step_def send_activity_def prepare_activity_def
        end_stream_begin_def Let_def)

section \<open>Two engines, one queue\<close>

text \<open>
  C9.  Two instances are constructed.  The second sees an empty queue; after the first
  queues an informative update, the second sees that job in its queue (and has no drain
  task of its own).  The citation list and the attachments are not shared, since
  \<^verbatim>\<open>set_citations\<close> and \<^verbatim>\<open>set_attachments\<close> assign them on the instance.
\<close>

theorem queue_shared_between_instances:
  "queue (attributes_of (construct 1 (construct 0 new_process)) 1) = []
   \<and> queue (attributes_of
        (call_on 0 (apply_event plain_env (Queue_informative_update ''Thinking...''))
           (construct 1 (construct 0 new_process))) 1) = [Const_activity thinking]
   \<and> \<not> queue_sync (attributes_of
        (call_on 0 (apply_event plain_env (Queue_informative_update ''Thinking...''))
           (construct 1 (construct 0 new_process))) 1)
   \<and> citations (attributes_of
        (call_on 0 (set_citations plain_env three_sources)
           (construct 1 (construct 0 new_process))) 1) = Some []
   \<and> attachments (attributes_of
        (call_on 0 (set_attachments [''card''])
           (construct 1 (construct 0 new_process))) 1) = []"
  by (simp add: attributes_of_def call_on_def construct_def new_process_def
        new_streaming_response_def thinking_def queue_informative_update_def
        queue_activity_def set_citations_def set_attachments_def three_sources_def Let_def)

end
